theory Spec2Isabelle
  imports Complex_Main
begin

section \<open>The evaluation dashboard controller (static/evaluation.js)\<close>

text \<open>
  The controller is one JavaScript file: three classifiers of a metric value, a text
  truncation, four renderers that build markup from a metrics payload, six primitives that
  show or hide a panel, and two asynchronous click handlers. The functions below follow the
  file top to bottom in what they compute; the state they mutate (the page) is passed in and
  returned.
\<close>

subsection \<open>Strings and numbers\<close>

text \<open>
  A JavaScript string is a sequence of UTF-16 code units: \<open>length\<close> counts code units and
  \<open>substring\<close> cuts between them. A code unit is a natural number here; the Cyrillic
  literals of the source are written as their code units (U+0410 and so on).
\<close>

type_synonym jsstring = "nat list"

definition ascii :: "string \<Rightarrow> jsstring" where
  "ascii s = map of_char s"

text \<open>A line break followed by \<open>n\<close> spaces, as inside the source's template literals.\<close>

definition indent :: "nat \<Rightarrow> jsstring" where
  "indent n = 10 # replicate n 32"

text \<open>
  Numbers are the reals they denote, and a comparison with a decimal literal is the
  comparison of reals. What the engine decides and the source does not is a parameter:
  the exponent notation \<open>Number::toString\<close> gives a number of magnitude \<open>10^21\<close> or more,
  and the message text of the \<open>TypeError\<close> raised by a method call on \<open>undefined\<close>.
\<close>

record engine =
  numberToString :: "real \<Rightarrow> jsstring"
  typeErrorMessage :: jsstring

datatype js_error = JsError (message: jsstring)

fun decimal :: "nat \<Rightarrow> jsstring" where
  "decimal n = (if n < 10 then [48 + n] else decimal (n div 10) @ [48 + n mod 10])"

declare decimal.simps [simp del]

text \<open>\<open>`${n}`\<close> for a count \<open>n\<close>: positional digits below \<open>10^21\<close>.\<close>

definition countToString :: "engine \<Rightarrow> nat \<Rightarrow> jsstring" where
  "countToString eng n = (if n < 10 ^ 21 then decimal n else numberToString eng (real n))"

text \<open>
  \<open>Number.prototype.toFixed\<close> (ECMAScript 21.1.3.3): the sign is split off; below
  \<open>10^21\<close> the digits are those of the integer \<open>n\<close> nearest to \<open>x * 10^f\<close> (the larger one
  at a tie), padded with zeros to at least \<open>f + 1\<close> digits, with a point before the last
  \<open>f\<close>.
\<close>

definition toFixed :: "engine \<Rightarrow> nat \<Rightarrow> real \<Rightarrow> jsstring" where
  "toFixed eng f x =
     (let s = (if x < 0 then ascii ''-'' else []);
          y = \<bar>x\<bar>
      in if y \<ge> 10 ^ 21 then s @ numberToString eng y
         else
           let n = nat \<lfloor>y * 10 ^ f + 1 / 2\<rfloor>;
               m = decimal n;
               mz = replicate (f + 1 - length m) 48 @ m;
               k = length mz
           in if f \<noteq> 0 then s @ take (k - f) mz @ ascii ''.'' @ drop (k - f) mz
              else s @ m)"

subsection \<open>Classifiers and truncation\<close>

definition getValueClass :: "real \<Rightarrow> jsstring" where
  "getValueClass value =
     (if value \<ge> 0.7 then ascii ''high''
      else if value \<ge> 0.4 then ascii ''medium''
      else ascii ''low'')"

definition getStatusClass :: "real \<Rightarrow> jsstring" where
  "getStatusClass value =
     (if value \<ge> 0.8 then ascii ''status-excellent''
      else if value \<ge> 0.6 then ascii ''status-good''
      else if value \<ge> 0.4 then ascii ''status-fair''
      else ascii ''status-poor'')"

definition text_excellent :: jsstring where
  "text_excellent = [0x41E, 0x442, 0x43B, 0x438, 0x447, 0x43D, 0x43E]"

definition text_good :: jsstring where
  "text_good = [0x425, 0x43E, 0x440, 0x43E, 0x448, 0x43E]"

definition text_fair :: jsstring where
  "text_fair = [0x423, 0x434, 0x43E, 0x432, 0x43B, 0x435, 0x442, 0x432, 0x43E, 0x440,
                0x438, 0x442, 0x435, 0x43B, 0x44C, 0x43D, 0x43E]"

definition text_poor :: jsstring where
  "text_poor = [0x41F, 0x43B, 0x43E, 0x445, 0x43E]"

definition getStatusText :: "real \<Rightarrow> jsstring" where
  "getStatusText value =
     (if value \<ge> 0.8 then text_excellent
      else if value \<ge> 0.6 then text_good
      else if value \<ge> 0.4 then text_fair
      else text_poor)"

text \<open>
  \<open>substring(0, maxLength)\<close> clamps its end to \<open>[0, length]\<close>, which \<open>take\<close> does for
  a natural number.
\<close>

definition truncateText :: "jsstring \<Rightarrow> nat \<Rightarrow> jsstring" where
  "truncateText text maxLength =
     (if length text > maxLength then take maxLength text @ ascii ''...'' else text)"

subsection \<open>The payload of \<open>POST /api/evaluate\<close>\<close>

text \<open>
  The macro metrics are read by computed key (\<open>macroMetrics[metric.key]\<close>), so they are
  the object's entries in its iteration order and a key may be missing. The metrics of one
  query are read by fixed property names and are a record; \<open>per_query\<close> is the list
  \<open>Object.entries\<close> returns, in the object's iteration order. The fields hold the types
  the endpoint's contract gives them.
\<close>

type_synonym metric_set = "(jsstring \<times> real) list"

record query_metrics =
  precision :: real
  recall :: real
  f_measure :: real
  accuracy :: real
  true_positive :: nat
  false_positive :: nat
  false_negative :: nat

record metrics_payload =
  macro :: metric_set
  per_query :: "(jsstring \<times> query_metrics) list"

record plot_set =
  precision_recall :: "jsstring option"
  metrics_comparison :: "jsstring option"

datatype metric_info = MetricInfo (info_name: jsstring) (info_description: jsstring)
  (info_formula: jsstring)

text \<open>
  What the awaited \<open>fetch\<close> and \<open>response.json()\<close> deliver between them: an exception
  or the parsed body.
\<close>

datatype 'a settled = Rejected js_error | Resolved 'a

subsection \<open>The page\<close>

text \<open>
  An element created by \<open>document.createElement('div')\<close>, and the page: for each of the
  four toggled elements whether its class list holds \<open>hidden\<close>, the text of the error
  banner, the content of the four containers, and the history of calls to the six panel
  primitives.
\<close>

record element =
  className :: jsstring
  innerHTML :: jsstring

datatype call = ShowLoading | HideLoading | ShowResults | HideResults
  | ShowError jsstring | HideError

record view_state =
  loading_hidden :: bool
  results_hidden :: bool
  error_hidden :: bool
  modal_hidden :: bool
  error_text :: jsstring
  macroMetrics_children :: "element list"
  plotsContainer_children :: "element list"
  detailedMetrics_html :: jsstring
  metricsInfo_children :: "element list"
  calls :: "call list"

definition showLoading :: "view_state \<Rightarrow> view_state" where
  "showLoading v = v\<lparr>loading_hidden := False, calls := calls v @ [ShowLoading]\<rparr>"

definition hideLoading :: "view_state \<Rightarrow> view_state" where
  "hideLoading v = v\<lparr>loading_hidden := True, calls := calls v @ [HideLoading]\<rparr>"

definition showResults :: "view_state \<Rightarrow> view_state" where
  "showResults v = v\<lparr>results_hidden := False, calls := calls v @ [ShowResults]\<rparr>"

definition hideResults :: "view_state \<Rightarrow> view_state" where
  "hideResults v = v\<lparr>results_hidden := True, calls := calls v @ [HideResults]\<rparr>"

definition showError :: "jsstring \<Rightarrow> view_state \<Rightarrow> view_state" where
  "showError msg v =
     v\<lparr>error_text := msg, error_hidden := False, calls := calls v @ [ShowError msg]\<rparr>"

definition hideError :: "view_state \<Rightarrow> view_state" where
  "hideError v = v\<lparr>error_hidden := True, calls := calls v @ [HideError]\<rparr>"

subsection \<open>Macro cards\<close>

record metric_def =
  key :: jsstring
  name :: jsstring
  description :: jsstring

definition macro_metric_defs :: "metric_def list" where
  "macro_metric_defs =
     [\<lparr>key = ascii ''precision'', name = ascii ''Precision'',
        description = [0x422, 0x43E, 0x447, 0x43D, 0x43E, 0x441, 0x442, 0x44C]\<rparr>,
      \<lparr>key = ascii ''recall'', name = ascii ''Recall'',
        description = [0x41F, 0x43E, 0x43B, 0x43D, 0x43E, 0x442, 0x430]\<rparr>,
      \<lparr>key = ascii ''f_measure'', name = ascii ''F-measure'',
        description = ascii ''F-'' @ [0x43C, 0x435, 0x440, 0x430]\<rparr>,
      \<lparr>key = ascii ''accuracy'', name = ascii ''Accuracy'',
        description = [0x410, 0x43A, 0x43A, 0x443, 0x440, 0x430, 0x442, 0x43D, 0x43E, 0x441,
                       0x442, 0x44C]\<rparr>]"

definition operator_label :: jsstring where
  "operator_label = [0x41E, 0x43F, 0x435, 0x440, 0x430, 0x442, 0x43E, 0x440] @ ascii '': ''"

definition metricCard :: "engine \<Rightarrow> metric_def \<Rightarrow> real \<Rightarrow> jsstring \<Rightarrow> element" where
  \<open>metricCard eng metric value operator =
     (let valueClass = getValueClass value
      in \<lparr>className = ascii ''metric-card'',
          innerHTML =
            indent 16 @ ascii ''<div class="metric-name">'' @ description metric
              @ ascii ''</div>''
            @ indent 16 @ ascii ''<div class="metric-value '' @ valueClass @ ascii ''">''
              @ toFixed eng 3 value @ ascii ''</div>''
            @ indent 16 @ ascii ''<div class="metric-desc">'' @ name metric
              @ ascii ''</div>''
            @ indent 16 @ ascii ''<div class="operator-info">'' @ operator_label @ operator
              @ ascii ''</div>''
            @ indent 12\<rparr>)\<close>

text \<open>
  The \<open>forEach\<close> over the four definitions, with the container's children so far. A
  missing key makes \<open>value\<close> undefined: \<open>getValueClass(undefined)\<close> returns, then
  \<open>value.toFixed\<close> raises a \<open>TypeError\<close>, and the cards appended before it stay.
\<close>

fun forEach_metric ::
  "engine \<Rightarrow> metric_set \<Rightarrow> jsstring \<Rightarrow> metric_def list \<Rightarrow> element list
     \<Rightarrow> element list \<times> js_error option" where
  "forEach_metric eng macroMetrics operator [] container = (container, None)"
| "forEach_metric eng macroMetrics operator (metric # rest) container =
     (case map_of macroMetrics (key metric) of
        None \<Rightarrow> (container, Some (JsError (typeErrorMessage eng)))
      | Some value \<Rightarrow>
          forEach_metric eng macroMetrics operator rest
            (container @ [metricCard eng metric value operator]))"

definition displayMacroMetrics ::
  "engine \<Rightarrow> metric_set \<Rightarrow> jsstring \<Rightarrow> element list \<times> js_error option" where
  "displayMacroMetrics eng macroMetrics operator =
     forEach_metric eng macroMetrics operator macro_metric_defs []"

subsection \<open>Plot panels\<close>

text \<open>A plot is shown when its field is truthy: present and not the empty string.\<close>

definition truthy :: "jsstring option \<Rightarrow> bool" where
  "truthy x = (case x of None \<Rightarrow> False | Some s \<Rightarrow> s \<noteq> [])"

definition img_src_prefix :: jsstring where
  \<open>img_src_prefix = ascii ''<img src="data:image/png;base64,''\<close>

definition precision_recall_panel :: "jsstring \<Rightarrow> jsstring \<Rightarrow> element" where
  \<open>precision_recall_panel plot operator =
     \<lparr>className = ascii ''plot-container'',
      innerHTML =
        indent 16 @ ascii ''<h4>Precision-Recall ''
          @ [0x43F, 0x43E, 0x20, 0x437, 0x430, 0x43F, 0x440, 0x43E, 0x441, 0x430, 0x43C]
          @ ascii '' ('' @ operator_label @ operator @ ascii '')</h4>''
        @ indent 16 @ img_src_prefix @ plot @ ascii ''" alt="Precision-Recall Plot">''
        @ indent 16 @ ascii ''<p class="plot-description">''
          @ [0x413, 0x440, 0x430, 0x444, 0x438, 0x43A, 0x20, 0x43F, 0x43E, 0x43A, 0x430,
             0x437, 0x44B, 0x432, 0x430, 0x435, 0x442, 0x20, 0x431, 0x430, 0x43B, 0x430,
             0x43D, 0x441, 0x20, 0x43C, 0x435, 0x436, 0x434, 0x443, 0x20, 0x442, 0x43E,
             0x447, 0x43D, 0x43E, 0x441, 0x442, 0x44C, 0x44E, 0x20, 0x438, 0x20, 0x43F,
             0x43E, 0x43B, 0x43D, 0x43E, 0x442, 0x43E, 0x439, 0x20, 0x434, 0x43B, 0x44F,
             0x20, 0x43A, 0x430, 0x436, 0x434, 0x43E, 0x433, 0x43E, 0x20, 0x437, 0x430,
             0x43F, 0x440, 0x43E, 0x441, 0x430]
          @ ascii ''</p>''
        @ indent 12\<rparr>\<close>

definition metrics_comparison_panel :: "jsstring \<Rightarrow> jsstring \<Rightarrow> element" where
  \<open>metrics_comparison_panel plot operator =
     \<lparr>className = ascii ''plot-container'',
      innerHTML =
        indent 16 @ ascii ''<h4>''
          @ [0x421, 0x440, 0x430, 0x432, 0x43D, 0x435, 0x43D, 0x438, 0x435, 0x20, 0x43C,
             0x435, 0x442, 0x440, 0x438, 0x43A, 0x20, 0x43A, 0x430, 0x447, 0x435, 0x441,
             0x442, 0x432, 0x430]
          @ ascii '' ('' @ operator_label @ operator @ ascii '')</h4>''
        @ indent 16 @ img_src_prefix @ plot @ ascii ''" alt="Metrics Comparison Plot">''
        @ indent 16 @ ascii ''<p class="plot-description">''
          @ [0x421, 0x440, 0x430, 0x432, 0x43D, 0x435, 0x43D, 0x438, 0x435, 0x20, 0x43C,
             0x430, 0x43A, 0x440, 0x43E, 0x443, 0x441, 0x440, 0x435, 0x434, 0x43D, 0x435,
             0x43D, 0x43D, 0x44B, 0x445, 0x20, 0x43C, 0x435, 0x442, 0x440, 0x438, 0x43A,
             0x20, 0x434, 0x43B, 0x44F, 0x20, 0x43E, 0x446, 0x435, 0x43D, 0x43A, 0x438,
             0x20, 0x43E, 0x431, 0x449, 0x435, 0x439, 0x20, 0x44D, 0x444, 0x444, 0x435,
             0x43A, 0x442, 0x438, 0x432, 0x43D, 0x43E, 0x441, 0x442, 0x438, 0x20, 0x441,
             0x438, 0x441, 0x442, 0x435, 0x43C, 0x44B]
          @ ascii ''</p>''
        @ indent 12\<rparr>\<close>

definition displayPlots :: "plot_set \<Rightarrow> jsstring \<Rightarrow> element list" where
  "displayPlots plots operator =
     (if truthy (precision_recall plots)
      then [precision_recall_panel (the (precision_recall plots)) operator] else [])
     @ (if truthy (metrics_comparison plots)
        then [metrics_comparison_panel (the (metrics_comparison plots)) operator] else [])"

subsection \<open>The per-query table\<close>

definition no_data_notice :: jsstring where
  "no_data_notice =
     ascii ''<p>''
     @ [0x41D, 0x435, 0x442, 0x20, 0x434, 0x430, 0x43D, 0x43D, 0x44B, 0x445, 0x20, 0x434,
        0x43B, 0x44F, 0x20, 0x43E, 0x442, 0x43E, 0x431, 0x440, 0x430, 0x436, 0x435, 0x43D,
        0x438, 0x44F]
     @ ascii ''</p>''"

definition table_head :: jsstring where
  \<open>table_head =
     indent 12 @ ascii ''<div class="table-container">''
     @ indent 12 @ ascii ''<table>''
     @ indent 16 @ ascii ''<thead>''
     @ indent 20 @ ascii ''<tr>''
     @ indent 24 @ ascii ''<th>'' @ [0x417, 0x430, 0x43F, 0x440, 0x43E, 0x441]
       @ ascii ''</th>''
     @ indent 24 @ ascii ''<th>Precision</th>''
     @ indent 24 @ ascii ''<th>Recall</th>''
     @ indent 24 @ ascii ''<th>F-measure</th>''
     @ indent 24 @ ascii ''<th>Accuracy</th>''
     @ indent 24 @ ascii ''<th>TP/FP/FN</th>''
     @ indent 24 @ ascii ''<th>'' @ [0x421, 0x442, 0x430, 0x442, 0x443, 0x441]
       @ ascii ''</th>''
     @ indent 20 @ ascii ''</tr>''
     @ indent 16 @ ascii ''</thead>''
     @ indent 16 @ ascii ''<tbody>''
     @ indent 8\<close>

definition table_foot :: jsstring where
  "table_foot = ascii ''</tbody></table></div>''"

text \<open>The markup one iteration of the loop appends, split at the query cell.\<close>

definition row_open :: jsstring where
  \<open>row_open = indent 16 @ ascii ''<tr>'' @ indent 20 @ ascii ''<td title="''\<close>

definition value_cell :: "engine \<Rightarrow> real \<Rightarrow> jsstring" where
  \<open>value_cell eng value =
     indent 20 @ ascii ''<td class="'' @ getValueClass value @ ascii ''">''
     @ toFixed eng 3 value @ ascii ''</td>''\<close>

definition row_rest :: "engine \<Rightarrow> query_metrics \<Rightarrow> jsstring" where
  \<open>row_rest eng metrics =
     (let stats = countToString eng (true_positive metrics) @ ascii ''/''
                  @ countToString eng (false_positive metrics) @ ascii ''/''
                  @ countToString eng (false_negative metrics);
          statusClass = getStatusClass (f_measure metrics);
          statusText = getStatusText (f_measure metrics)
      in value_cell eng (precision metrics)
         @ value_cell eng (recall metrics)
         @ value_cell eng (f_measure metrics)
         @ value_cell eng (accuracy metrics)
         @ indent 20 @ ascii ''<td>'' @ stats @ ascii ''</td>''
         @ indent 20 @ ascii ''<td class="status-cell '' @ statusClass @ ascii ''">''
           @ statusText @ ascii ''</td>''
         @ indent 16 @ ascii ''</tr>''
         @ indent 12)\<close>

definition table_row :: "engine \<Rightarrow> jsstring \<times> query_metrics \<Rightarrow> jsstring" where
  \<open>table_row eng entry =
     (case entry of (query, metrics) \<Rightarrow>
        row_open @ query @ ascii ''">'' @ truncateText query 30 @ ascii ''</td>''
        @ row_rest eng metrics)\<close>

text \<open>
  The value assigned to the container's \<open>innerHTML\<close>. The \<open>operator\<close> argument is not
  used, as in the source.
\<close>

definition displayDetailedMetrics ::
  "engine \<Rightarrow> (jsstring \<times> query_metrics) list \<Rightarrow> jsstring \<Rightarrow> jsstring" where
  "displayDetailedMetrics eng perQueryMetrics operator =
     (if length (map fst perQueryMetrics) = 0 then no_data_notice
      else foldl (\<lambda>tableHTML entry. tableHTML @ table_row eng entry) table_head
             perQueryMetrics
           @ table_foot)"

subsection \<open>The metric documentation modal\<close>

definition metric_info_div :: "metric_info \<Rightarrow> element" where
  \<open>metric_info_div info =
     \<lparr>className = ascii ''metric-info'',
      innerHTML =
        indent 16 @ ascii ''<h4>'' @ info_name info @ ascii ''</h4>''
        @ indent 16 @ ascii ''<p>'' @ info_description info @ ascii ''</p>''
        @ indent 16 @ ascii ''<div class="metric-formula">'' @ info_formula info
          @ ascii ''</div>''
        @ indent 12\<rparr>\<close>

definition displayMetricsInfo ::
  "(jsstring \<times> metric_info) list \<Rightarrow> view_state \<Rightarrow> view_state" where
  "displayMetricsInfo metricsInfo v =
     v\<lparr>metricsInfo_children :=
         foldl (\<lambda>container entry. container @ [metric_info_div (snd entry)]) [] metricsInfo,
       modal_hidden := False\<rparr>"

subsection \<open>Rendering a successful response\<close>

text \<open>
  The page after \<open>displayResults\<close> and the exception it ended with, if any: when the macro
  renderer raises, the plots, the table and \<open>showResults\<close> are not reached.
\<close>

definition displayResults ::
  "engine \<Rightarrow> metrics_payload \<Rightarrow> plot_set \<Rightarrow> jsstring \<Rightarrow> view_state
     \<Rightarrow> view_state \<times> js_error option" where
  "displayResults eng metrics plots operator v =
     (case displayMacroMetrics eng (macro metrics) operator of
        (cards, Some e) \<Rightarrow> (v\<lparr>macroMetrics_children := cards\<rparr>, Some e)
      | (cards, None) \<Rightarrow>
          (showResults
             (v\<lparr>macroMetrics_children := cards,
                plotsContainer_children := displayPlots plots operator,
                detailedMetrics_html :=
                  displayDetailedMetrics eng (per_query metrics) operator\<rparr>),
           None))"

subsection \<open>The two click handlers\<close>

record evaluate_data =
  success :: bool
  metrics :: metrics_payload
  plots :: plot_set
  operator :: jsstring
  error :: jsstring

definition evaluation_error_prefix :: jsstring where
  "evaluation_error_prefix =
     [0x41E, 0x448, 0x438, 0x431, 0x43A, 0x430, 0x20, 0x43F, 0x440, 0x438, 0x20, 0x432,
      0x44B, 0x43F, 0x43E, 0x43B, 0x43D, 0x435, 0x43D, 0x438, 0x438, 0x20, 0x43E, 0x446,
      0x435, 0x43D, 0x43A, 0x438] @ ascii '': ''"

definition metrics_info_error :: jsstring where
  "metrics_info_error =
     [0x41E, 0x448, 0x438, 0x431, 0x43A, 0x430, 0x20, 0x43F, 0x440, 0x438, 0x20, 0x437,
      0x430, 0x433, 0x440, 0x443, 0x437, 0x43A, 0x435, 0x20, 0x438, 0x43D, 0x444, 0x43E,
      0x440, 0x43C, 0x430, 0x446, 0x438, 0x438, 0x20, 0x43E, 0x20, 0x43C, 0x435, 0x442,
      0x440, 0x438, 0x43A, 0x430, 0x445]"

text \<open>
  \<open>runEvaluation\<close> runs to its first \<open>await\<close> when the button is clicked
  (\<open>runEvaluation_begin\<close>) and resumes when the request has settled: the body of
  \<open>try\<close> with its \<open>catch\<close> (\<open>runEvaluation_try\<close>), then \<open>finally\<close>
  (\<open>runEvaluation_settle\<close>). \<open>runEvaluation\<close> is one invocation with nothing
  in between.
\<close>

definition runEvaluation_begin :: "view_state \<Rightarrow> view_state" where
  "runEvaluation_begin v = hideError (hideResults (showLoading v))"

definition runEvaluation_try ::
  "engine \<Rightarrow> evaluate_data settled \<Rightarrow> view_state \<Rightarrow> view_state" where
  "runEvaluation_try eng response v =
     (case response of
        Rejected e \<Rightarrow> showError (evaluation_error_prefix @ message e) v
      | Resolved data \<Rightarrow>
          if success data then
            (case displayResults eng (metrics data) (plots data) (operator data) v of
               (v', None) \<Rightarrow> v'
             | (v', Some e) \<Rightarrow> showError (evaluation_error_prefix @ message e) v')
          else showError (error data) v)"

definition runEvaluation_settle ::
  "engine \<Rightarrow> evaluate_data settled \<Rightarrow> view_state \<Rightarrow> view_state" where
  "runEvaluation_settle eng response v = hideLoading (runEvaluation_try eng response v)"

definition runEvaluation ::
  "engine \<Rightarrow> evaluate_data settled \<Rightarrow> view_state \<Rightarrow> view_state" where
  "runEvaluation eng response v = runEvaluation_settle eng response (runEvaluation_begin v)"

text \<open>\<open>showMetricsInfo\<close> changes nothing before its \<open>await\<close>; this is its continuation.\<close>

definition showMetricsInfo_settle ::
  "(jsstring \<times> metric_info) list settled \<Rightarrow> view_state \<Rightarrow> view_state" where
  "showMetricsInfo_settle response v =
     (case response of
        Rejected e \<Rightarrow> showError metrics_info_error v
      | Resolved metricsInfo \<Rightarrow> displayMetricsInfo metricsInfo v)"

subsection \<open>The page as an event-driven system\<close>

text \<open>
  One event is one task of the event loop, run to completion: a click on either button, the
  settling of a request that is in flight, a click on the modal's close control, or a click
  somewhere in the window (on the modal's backdrop or not). The page counts the requests in
  flight; nothing stops a second click while one is outstanding.
\<close>

datatype event =
    RunEvaluationClick
  | EvaluateSettled "evaluate_data settled"
  | ShowMetricsInfoClick
  | MetricsInfoSettled "(jsstring \<times> metric_info) list settled"
  | CloseClick
  | WindowClick bool

record page =
  view :: view_state
  evaluate_pending :: nat
  info_pending :: nat

definition fire :: "engine \<Rightarrow> event \<Rightarrow> page \<Rightarrow> page option" where
  "fire eng ev p =
     (case ev of
        RunEvaluationClick \<Rightarrow>
          Some (p\<lparr>view := runEvaluation_begin (view p),
                  evaluate_pending := Suc (evaluate_pending p)\<rparr>)
      | EvaluateSettled response \<Rightarrow>
          if evaluate_pending p = 0 then None
          else Some (p\<lparr>view := runEvaluation_settle eng response (view p),
                       evaluate_pending := evaluate_pending p - 1\<rparr>)
      | ShowMetricsInfoClick \<Rightarrow> Some (p\<lparr>info_pending := Suc (info_pending p)\<rparr>)
      | MetricsInfoSettled response \<Rightarrow>
          if info_pending p = 0 then None
          else Some (p\<lparr>view := showMetricsInfo_settle response (view p),
                       info_pending := info_pending p - 1\<rparr>)
      | CloseClick \<Rightarrow> Some (p\<lparr>view := (view p)\<lparr>modal_hidden := True\<rparr>\<rparr>)
      | WindowClick on_modal \<Rightarrow>
          if on_modal then Some (p\<lparr>view := (view p)\<lparr>modal_hidden := True\<rparr>\<rparr>)
          else Some p)"

fun fire_all :: "engine \<Rightarrow> event list \<Rightarrow> page \<Rightarrow> page option" where
  "fire_all eng [] p = Some p"
| "fire_all eng (ev # evs) p =
     (case fire eng ev p of None \<Rightarrow> None | Some p' \<Rightarrow> fire_all eng evs p')"

text \<open>
  Modelled from the spec: the page's markup is not part of the source. The spec's view
  state is created at page load in \<open>Idle\<close>: no panel visible, the modal closed, nothing
  rendered, no request in flight.
\<close>

definition page_load :: page where
  "page_load =
     \<lparr>view = \<lparr>loading_hidden = True, results_hidden = True, error_hidden = True,
              modal_hidden = True, error_text = [], macroMetrics_children = [],
              plotsContainer_children = [], detailedMetrics_html = [],
              metricsInfo_children = [], calls = []\<rparr>,
      evaluate_pending = 0, info_pending = 0\<rparr>"

definition visible_panels :: "view_state \<Rightarrow> nat" where
  "visible_panels v =
     length (filter Not [loading_hidden v, results_hidden v, error_hidden v])"

definition at_most_one_visible :: "view_state \<Rightarrow> bool" where
  "at_most_one_visible v = (visible_panels v \<le> 1)"

text \<open>
  A sequence of events is single-flight when no evaluation is started while one is in
  flight, and free of documentation failures when no \<open>showMetricsInfo\<close> request is
  rejected.
\<close>

fun permitted :: "event \<Rightarrow> page \<Rightarrow> bool" where
  "permitted RunEvaluationClick p = (evaluate_pending p = 0)"
| "permitted (MetricsInfoSettled (Rejected e)) p = False"
| "permitted ev p = True"

fun disciplined :: "engine \<Rightarrow> event list \<Rightarrow> page \<Rightarrow> bool" where
  "disciplined eng [] p = True"
| "disciplined eng (ev # evs) p =
     (permitted ev p \<and>
      (case fire eng ev p of None \<Rightarrow> False | Some p' \<Rightarrow> disciplined eng evs p'))"

text \<open>
  The invariant of a disciplined page: with no evaluation in flight at most one panel is
  visible, and with one in flight only the loading indicator is.
\<close>

definition settled_inv :: "page \<Rightarrow> bool" where
  "settled_inv p =
     (if evaluate_pending p = 0 then at_most_one_visible (view p)
      else evaluate_pending p = 1 \<and> \<not> loading_hidden (view p)
           \<and> results_hidden (view p) \<and> error_hidden (view p))"

subsection \<open>Reading the markup back\<close>






subsection \<open>Sample inputs\<close>

text \<open>
  An engine, three responses of the evaluate endpoint (a success with one query and one
  plot, a failure, and a success whose macro metrics lack three keys), a rejected request,
  a per-query object whose iteration order is neither alphabetical nor by value, the
  metrics of one query, a query identifier that contains double quotes, and three sequences
  of events.
\<close>

definition sample_engine :: engine where
  "sample_engine = \<lparr>numberToString = (\<lambda>x. ascii ''1e+21''),
                     typeErrorMessage = ascii ''value is undefined''\<rparr>"

definition scenario_A :: evaluate_data where
  "scenario_A =
     \<lparr>success = True,
      metrics =
        \<lparr>macro = [(ascii ''precision'', 0.82), (ascii ''recall'', 0.65),
                  (ascii ''f_measure'', 0.725), (ascii ''accuracy'', 0.9)],
         per_query =
           [(ascii ''q1'',
             \<lparr>precision = 0.9, recall = 0.5, f_measure = 0.643, accuracy = 0.95,
              true_positive = 9, false_positive = 1, false_negative = 9\<rparr>)]\<rparr>,
      plots = \<lparr>precision_recall = Some (ascii ''iVBORw0KGgo=''),
               metrics_comparison = None\<rparr>,
      operator = ascii ''AND'',
      error = []\<rparr>"

definition scenario_B :: evaluate_data where
  "scenario_B =
     \<lparr>success = False,
      metrics = \<lparr>macro = [], per_query = []\<rparr>,
      plots = \<lparr>precision_recall = None, metrics_comparison = None\<rparr>,
      operator = [],
      error = ascii ''qrels not found''\<rparr>"

definition scenario_incomplete :: evaluate_data where
  "scenario_incomplete =
     scenario_A\<lparr>metrics := \<lparr>macro = [(ascii ''precision'', 0.82)], per_query = []\<rparr>\<rparr>"

definition fetch_failed :: js_error where
  "fetch_failed = JsError (ascii ''Failed to fetch'')"




definition results_then_info_failure :: "event list" where
  "results_then_info_failure =
     [RunEvaluationClick, EvaluateSettled (Resolved scenario_A),
      ShowMetricsInfoClick, MetricsInfoSettled (Rejected fetch_failed)]"

definition overlapping_runs :: "event list" where
  "overlapping_runs =
     [RunEvaluationClick, RunEvaluationClick, EvaluateSettled (Resolved scenario_A),
      EvaluateSettled (Resolved scenario_B)]"

definition disciplined_session :: "event list" where
  "disciplined_session =
     [RunEvaluationClick, ShowMetricsInfoClick, EvaluateSettled (Resolved scenario_A),
      MetricsInfoSettled (Resolved []), CloseClick, RunEvaluationClick,
      EvaluateSettled (Rejected fetch_failed)]"

section \<open>Properties\<close>

subsection \<open>Helper facts about the string literals\<close>

lemma length_ascii [simp]: "length (ascii s) = length s"
  by (simp add: ascii_def)

lemma value_class_distinct:
  "ascii ''high'' \<noteq> ascii ''medium''" "ascii ''high'' \<noteq> ascii ''low''"
  "ascii ''medium'' \<noteq> ascii ''low''"
  by (simp_all add: ascii_def)

lemma status_class_distinct:
  "ascii ''status-excellent'' \<noteq> ascii ''status-good''"
  "ascii ''status-excellent'' \<noteq> ascii ''status-fair''"
  "ascii ''status-excellent'' \<noteq> ascii ''status-poor''"
  "ascii ''status-good'' \<noteq> ascii ''status-fair''"
  "ascii ''status-good'' \<noteq> ascii ''status-poor''"
  "ascii ''status-fair'' \<noteq> ascii ''status-poor''"
  by (simp_all add: ascii_def)

lemma status_text_distinct:
  "text_excellent \<noteq> text_good" "text_excellent \<noteq> text_fair"
  "text_excellent \<noteq> text_poor" "text_good \<noteq> text_fair"
  "text_good \<noteq> text_poor" "text_fair \<noteq> text_poor"
  by (simp_all add: text_excellent_def text_good_def text_fair_def text_poor_def)

subsection \<open>The classifiers\<close>

text \<open>
  \<^bold>\<open>C1.\<close> For every real value \<open>v\<close>, \<open>getValueClass\<close> returns \<open>high\<close> exactly when
  \<open>v \<ge> 0.7\<close>, \<open>medium\<close> exactly when \<open>0.4 \<le> v < 0.7\<close> and \<open>low\<close> exactly when
  \<open>v < 0.4\<close>; the boundaries \<open>0.7\<close> and \<open>0.4\<close> fall into the higher tier; and the
  function has no other result: it returns one of the three classes on every input.
\<close>

theorem getValueClass_tiers:
  "(getValueClass v = ascii ''high'' \<longleftrightarrow> v \<ge> 0.7)
   \<and> (getValueClass v = ascii ''medium'' \<longleftrightarrow> 0.4 \<le> v \<and> v < 0.7)
   \<and> (getValueClass v = ascii ''low'' \<longleftrightarrow> v < 0.4)
   \<and> getValueClass 0.7 = ascii ''high''
   \<and> getValueClass 0.4 = ascii ''medium''
   \<and> getValueClass v \<in> {ascii ''high'', ascii ''medium'', ascii ''low''}"
  using value_class_distinct by (auto simp: getValueClass_def)

theorem getValueClass_tiers_witness:
  "getValueClass 0.7 = ascii ''high'' \<and> getValueClass 0.69 = ascii ''medium''
   \<and> getValueClass 0.4 = ascii ''medium'' \<and> getValueClass 0.39 = ascii ''low''"
  using getValueClass_tiers [of "0.7"] getValueClass_tiers [of "0.69"]
    getValueClass_tiers [of "0.39"] by simp

text \<open>
  \<^bold>\<open>C2.\<close> For every real value \<open>v\<close>, \<open>getStatusClass\<close> and \<open>getStatusText\<close> return the
  Excellent tier exactly when \<open>v \<ge> 0.8\<close>, Good exactly when \<open>0.6 \<le> v < 0.8\<close>, Fair
  exactly when \<open>0.4 \<le> v < 0.6\<close> and Poor exactly when \<open>v < 0.4\<close>; each of the boundaries
  \<open>0.8\<close>, \<open>0.6\<close> and \<open>0.4\<close> resolves to the higher tier.
\<close>

theorem status_tiers:
  "(getStatusClass v = ascii ''status-excellent'' \<longleftrightarrow> v \<ge> 0.8)
   \<and> (getStatusClass v = ascii ''status-good'' \<longleftrightarrow> 0.6 \<le> v \<and> v < 0.8)
   \<and> (getStatusClass v = ascii ''status-fair'' \<longleftrightarrow> 0.4 \<le> v \<and> v < 0.6)
   \<and> (getStatusClass v = ascii ''status-poor'' \<longleftrightarrow> v < 0.4)
   \<and> (getStatusText v = text_excellent \<longleftrightarrow> v \<ge> 0.8)
   \<and> (getStatusText v = text_good \<longleftrightarrow> 0.6 \<le> v \<and> v < 0.8)
   \<and> (getStatusText v = text_fair \<longleftrightarrow> 0.4 \<le> v \<and> v < 0.6)
   \<and> (getStatusText v = text_poor \<longleftrightarrow> v < 0.4)
   \<and> getStatusClass 0.8 = ascii ''status-excellent'' \<and> getStatusText 0.8 = text_excellent
   \<and> getStatusClass 0.6 = ascii ''status-good'' \<and> getStatusText 0.6 = text_good
   \<and> getStatusClass 0.4 = ascii ''status-fair'' \<and> getStatusText 0.4 = text_fair"
  using status_class_distinct status_text_distinct
  by (auto simp: getStatusClass_def getStatusText_def)

theorem status_tiers_witness:
  "getStatusClass 0.8 = ascii ''status-excellent''
   \<and> getStatusClass 0.79999 = ascii ''status-good''
   \<and> getStatusText 0.59 = text_fair \<and> getStatusText 0.39 = text_poor"
  using status_tiers [of "0.8"] status_tiers [of "0.79999"] status_tiers [of "0.59"]
    status_tiers [of "0.39"] by simp

text \<open>
  \<^bold>\<open>C10.\<close> For every real value the status class and the status text name the same
  tier: the class is \<open>status-excellent\<close> exactly when the text is the Excellent label, and
  likewise for Good, Fair and Poor.
\<close>

theorem status_class_text_agree:
  "(getStatusClass v = ascii ''status-excellent'' \<longleftrightarrow> getStatusText v = text_excellent)
   \<and> (getStatusClass v = ascii ''status-good'' \<longleftrightarrow> getStatusText v = text_good)
   \<and> (getStatusClass v = ascii ''status-fair'' \<longleftrightarrow> getStatusText v = text_fair)
   \<and> (getStatusClass v = ascii ''status-poor'' \<longleftrightarrow> getStatusText v = text_poor)"
  using status_class_distinct status_text_distinct
  by (auto simp: getStatusClass_def getStatusText_def)

theorem status_class_text_agree_witness:
  "getStatusClass 0.643 = ascii ''status-good'' \<and> getStatusText 0.643 = text_good"
  using status_class_text_agree [of "0.643"] status_class_distinct
  by (simp add: getStatusClass_def)

subsection \<open>The per-query table\<close>

lemma foldl_append_concat:
  "foldl (\<lambda>acc x. acc @ f x) a xs = a @ concat (map f xs)"
  by (induction xs arbitrary: a) simp_all

lemma displayDetailedMetrics_rows:
  "perQueryMetrics \<noteq> [] \<Longrightarrow>
   displayDetailedMetrics eng perQueryMetrics opr
     = table_head @ concat (map (table_row eng) perQueryMetrics) @ table_foot"
  by (simp add: displayDetailedMetrics_def foldl_append_concat)

lemma table_head_not_notice: "table_head @ rest \<noteq> no_data_notice"
  by (simp add: table_head_def no_data_notice_def indent_def ascii_def)

text \<open>
  \<^bold>\<open>C9.\<close> For the empty per-query object the detailed section is the single
  \<open>no data\<close> notice, which is not the table's head and foot with no row between; for every
  non-empty object it is the table and not the notice.
\<close>

theorem detailed_empty_or_table:
  "displayDetailedMetrics eng [] opr = no_data_notice
   \<and> no_data_notice \<noteq> table_head @ table_foot
   \<and> (perQueryMetrics \<noteq> [] \<longrightarrow>
        displayDetailedMetrics eng perQueryMetrics opr
          = table_head @ concat (map (table_row eng) perQueryMetrics) @ table_foot
        \<and> displayDetailedMetrics eng perQueryMetrics opr \<noteq> no_data_notice)"
  using table_head_not_notice [of table_foot]
    table_head_not_notice [of "concat (map (table_row eng) perQueryMetrics) @ table_foot"]
  by (auto simp: displayDetailedMetrics_rows) (simp add: displayDetailedMetrics_def)

theorem detailed_empty_or_table_witness:
  "per_query (metrics scenario_A) \<noteq> []
   \<and> displayDetailedMetrics sample_engine (per_query (metrics scenario_A)) (ascii ''AND'')
       \<noteq> no_data_notice
   \<and> displayDetailedMetrics sample_engine (per_query (metrics scenario_B)) (ascii ''AND'')
       = no_data_notice"
proof -
  have ne: "per_query (metrics scenario_A) \<noteq> []" by (simp add: scenario_A_def)
  have e: "per_query (metrics scenario_B) = []" by (simp add: scenario_B_def)
  show ?thesis
    using detailed_empty_or_table
      [of sample_engine "ascii ''AND''" "per_query (metrics scenario_A)"] ne e
    by auto
qed


subsection \<open>The evaluation request\<close>

lemma displayResults_flags:
  "displayResults eng ms ps opr v = (v', r) \<Longrightarrow>
     loading_hidden v' = loading_hidden v \<and> error_hidden v' = error_hidden v
     \<and> error_text v' = error_text v \<and> modal_hidden v' = modal_hidden v
     \<and> (case r of None \<Rightarrow> \<not> results_hidden v' \<and> calls v' = calls v @ [ShowResults]
         | Some e \<Rightarrow> results_hidden v' = results_hidden v \<and> calls v' = calls v)"
  by (auto simp: displayResults_def showResults_def split: prod.splits option.splits)

lemma runEvaluation_begin_flags:
  "\<not> loading_hidden (runEvaluation_begin v)" "results_hidden (runEvaluation_begin v)"
  "error_hidden (runEvaluation_begin v)"
  "modal_hidden (runEvaluation_begin v) = modal_hidden v"
  "calls (runEvaluation_begin v) = calls v @ [ShowLoading, HideResults, HideError]"
  by (simp_all add: runEvaluation_begin_def showLoading_def hideResults_def hideError_def)

text \<open>
  Whatever the request settled with, the body of \<open>try\<close> with its \<open>catch\<close> makes exactly
  one call to a panel primitive, \<open>showResults\<close> or \<open>showError\<close>, and leaves the loading
  indicator alone.
\<close>

lemma runEvaluation_try_cases:
  "loading_hidden (runEvaluation_try eng response v) = loading_hidden v
   \<and> ((\<not> results_hidden (runEvaluation_try eng response v)
        \<and> error_hidden (runEvaluation_try eng response v) = error_hidden v
        \<and> calls (runEvaluation_try eng response v) = calls v @ [ShowResults])
      \<or> (\<exists>msg. results_hidden (runEvaluation_try eng response v) = results_hidden v
        \<and> \<not> error_hidden (runEvaluation_try eng response v)
        \<and> error_text (runEvaluation_try eng response v) = msg
        \<and> calls (runEvaluation_try eng response v) = calls v @ [ShowError msg]))"
proof (cases response)
  case (Rejected e)
  then show ?thesis by (simp add: runEvaluation_try_def showError_def)
next
  case (Resolved data)
  show ?thesis
  proof (cases "success data")
    case False
    with Resolved show ?thesis by (simp add: runEvaluation_try_def showError_def)
  next
    case True
    obtain v' r where dr:
      "displayResults eng (metrics data) (plots data) (operator data) v = (v', r)"
      by (cases "displayResults eng (metrics data) (plots data) (operator data) v")
    from displayResults_flags [OF dr] Resolved True dr show ?thesis
      by (cases r) (simp_all add: runEvaluation_try_def showError_def)
  qed
qed

lemma runEvaluation_settle_calls:
  "\<exists>branch. calls (runEvaluation_settle eng response v) = calls v @ [branch, HideLoading]
     \<and> (branch = ShowResults \<or> (\<exists>msg. branch = ShowError msg))"
  using runEvaluation_try_cases [of eng response v]
  by (auto simp: runEvaluation_settle_def hideLoading_def)

text \<open>
  \<^bold>\<open>C3.\<close> Every invocation of \<open>runEvaluation\<close> calls the panel primitives in one fixed
  order, whether the request succeeded, failed at the application level or was rejected:
  \<open>showLoading\<close>, \<open>hideResults\<close>, \<open>hideError\<close>, then the one call of the branch taken
  (\<open>showResults\<close> or \<open>showError\<close>), then \<open>hideLoading\<close>, once and last. The loading
  indicator is visible from the first call until that last one, also just after the
  branch; and the continuation contributes its two calls in this order to whatever state
  the page is in when the request settles.
\<close>

theorem runEvaluation_call_order:
  "(\<exists>branch. calls (runEvaluation eng response v)
       = calls v @ [ShowLoading, HideResults, HideError, branch, HideLoading]
     \<and> (branch = ShowResults \<or> (\<exists>msg. branch = ShowError msg)))
   \<and> \<not> loading_hidden (runEvaluation_begin v)
   \<and> results_hidden (runEvaluation_begin v)
   \<and> error_hidden (runEvaluation_begin v)
   \<and> \<not> loading_hidden (runEvaluation_try eng response (runEvaluation_begin v))
   \<and> loading_hidden (runEvaluation eng response v)
   \<and> (\<exists>branch. calls (runEvaluation_settle eng response w)
         = calls w @ [branch, HideLoading]
       \<and> (branch = ShowResults \<or> (\<exists>msg. branch = ShowError msg)))
   \<and> loading_hidden (runEvaluation_settle eng response w)"
proof -
  have a: "\<exists>branch. calls (runEvaluation eng response v)
       = calls v @ [ShowLoading, HideResults, HideError, branch, HideLoading]
     \<and> (branch = ShowResults \<or> (\<exists>msg. branch = ShowError msg))"
    using runEvaluation_settle_calls [of eng response "runEvaluation_begin v"]
    by (auto simp: runEvaluation_def runEvaluation_begin_flags)
  have b: "\<not> loading_hidden (runEvaluation_try eng response (runEvaluation_begin v))"
    using runEvaluation_try_cases [of eng response "runEvaluation_begin v"]
    by (simp add: runEvaluation_begin_flags)
  have c: "loading_hidden (runEvaluation_settle eng response u)" for u
    by (simp add: runEvaluation_settle_def hideLoading_def)
  show ?thesis
    using a b c [of w] c [of "runEvaluation_begin v"] runEvaluation_settle_calls [of eng response w]
    by (simp add: runEvaluation_begin_flags runEvaluation_def)
qed

theorem runEvaluation_call_order_witness:
  "calls (runEvaluation sample_engine (Resolved scenario_A) (view page_load))
     = [ShowLoading, HideResults, HideError, ShowResults, HideLoading]
   \<and> calls (runEvaluation sample_engine (Resolved scenario_B) (view page_load))
     = [ShowLoading, HideResults, HideError, ShowError (ascii ''qrels not found''),
        HideLoading]
   \<and> calls (runEvaluation sample_engine (Rejected fetch_failed) (view page_load))
     = [ShowLoading, HideResults, HideError,
        ShowError (evaluation_error_prefix @ ascii ''Failed to fetch''), HideLoading]
   \<and> calls (runEvaluation sample_engine (Resolved scenario_incomplete) (view page_load))
     = [ShowLoading, HideResults, HideError,
        ShowError (evaluation_error_prefix @ ascii ''value is undefined''), HideLoading]
   \<and> loading_hidden (runEvaluation sample_engine (Resolved scenario_A) (view page_load))"
proof -
  have A: "displayMacroMetrics sample_engine (macro (metrics scenario_A)) (operator scenario_A)
        = (map (\<lambda>(d, v). metricCard sample_engine d v (ascii ''AND''))
             (zip macro_metric_defs [0.82, 0.65, 0.725, 0.9]), None)"
    by (simp add: displayMacroMetrics_def macro_metric_defs_def scenario_A_def ascii_def)
  have sA: "success scenario_A" by (simp add: scenario_A_def)
  have cA: "calls (runEvaluation sample_engine (Resolved scenario_A) (view page_load))
     = [ShowLoading, HideResults, HideError, ShowResults, HideLoading]"
    by (simp add: runEvaluation_def runEvaluation_settle_def runEvaluation_try_def sA
        displayResults_def A hideLoading_def showResults_def runEvaluation_begin_flags
        page_load_def)
  have cB: "calls (runEvaluation sample_engine (Resolved scenario_B) (view page_load))
     = [ShowLoading, HideResults, HideError, ShowError (ascii ''qrels not found''),
        HideLoading]"
    by (simp add: runEvaluation_def runEvaluation_settle_def runEvaluation_try_def
        scenario_B_def hideLoading_def showError_def runEvaluation_begin_flags page_load_def)
  have cR: "calls (runEvaluation sample_engine (Rejected fetch_failed) (view page_load))
     = [ShowLoading, HideResults, HideError,
        ShowError (evaluation_error_prefix @ ascii ''Failed to fetch''), HideLoading]"
    by (simp add: runEvaluation_def runEvaluation_settle_def runEvaluation_try_def
        fetch_failed_def hideLoading_def showError_def runEvaluation_begin_flags page_load_def)
  have I: "displayMacroMetrics sample_engine (macro (metrics scenario_incomplete))
        (operator scenario_incomplete)
        = ([metricCard sample_engine (hd macro_metric_defs) 0.82 (ascii ''AND'')],
           Some (JsError (ascii ''value is undefined'')))"
    by (simp add: displayMacroMetrics_def macro_metric_defs_def scenario_incomplete_def
        scenario_A_def sample_engine_def ascii_def)
  have sI: "success scenario_incomplete"
    by (simp add: scenario_incomplete_def scenario_A_def)
  have cI: "calls (runEvaluation sample_engine (Resolved scenario_incomplete) (view page_load))
     = [ShowLoading, HideResults, HideError,
        ShowError (evaluation_error_prefix @ ascii ''value is undefined''), HideLoading]"
    by (simp add: runEvaluation_def runEvaluation_settle_def runEvaluation_try_def sI
        displayResults_def I hideLoading_def showError_def runEvaluation_begin_flags
        page_load_def)
  show ?thesis
    using runEvaluation_call_order
      [of sample_engine "Resolved scenario_A" "view page_load" "view page_load"]
      cA cB cR cI
    by simp
qed

text \<open>
  \<^bold>\<open>C4.\<close> When the evaluate endpoint answers with \<open>success = false\<close> and an error
  message, \<open>runEvaluation\<close> ends with the error banner visible and holding exactly that
  message, the loading indicator hidden and the results panel hidden. The continuation
  alone, from any state, shows the message, hides the loading indicator and does not touch
  the results panel.
\<close>

theorem runEvaluation_failure_shows_error:
  "\<not> success data \<Longrightarrow>
     error_text (runEvaluation eng (Resolved data) v) = error data
     \<and> \<not> error_hidden (runEvaluation eng (Resolved data) v)
     \<and> loading_hidden (runEvaluation eng (Resolved data) v)
     \<and> results_hidden (runEvaluation eng (Resolved data) v)
     \<and> error_text (runEvaluation_settle eng (Resolved data) w) = error data
     \<and> \<not> error_hidden (runEvaluation_settle eng (Resolved data) w)
     \<and> loading_hidden (runEvaluation_settle eng (Resolved data) w)
     \<and> results_hidden (runEvaluation_settle eng (Resolved data) w) = results_hidden w"
  by (simp add: runEvaluation_def runEvaluation_settle_def runEvaluation_try_def
      hideLoading_def showError_def runEvaluation_begin_flags)

theorem runEvaluation_failure_shows_error_witness:
  "\<not> success scenario_B
   \<and> error_text (runEvaluation sample_engine (Resolved scenario_B) (view page_load))
       = ascii ''qrels not found''
   \<and> \<not> error_hidden (runEvaluation sample_engine (Resolved scenario_B) (view page_load))
   \<and> loading_hidden (runEvaluation sample_engine (Resolved scenario_B) (view page_load))
   \<and> results_hidden (runEvaluation sample_engine (Resolved scenario_B) (view page_load))"
  using runEvaluation_failure_shows_error
    [of scenario_B sample_engine "view page_load" "view page_load"]
  by (simp add: scenario_B_def)

subsection \<open>Panel visibility across events\<close>

lemma at_most_one_visible_iff:
  "at_most_one_visible v \<longleftrightarrow>
     (loading_hidden v \<and> results_hidden v) \<or> (loading_hidden v \<and> error_hidden v)
     \<or> (results_hidden v \<and> error_hidden v)"
  by (auto simp: at_most_one_visible_def visible_panels_def)

lemma runEvaluation_settle_flags:
  "loading_hidden (runEvaluation_settle eng response v)
   \<and> (results_hidden v \<and> error_hidden v \<longrightarrow>
        results_hidden (runEvaluation_settle eng response v)
        \<or> error_hidden (runEvaluation_settle eng response v))"
  using runEvaluation_try_cases [of eng response v]
  by (auto simp: runEvaluation_settle_def hideLoading_def)

lemma displayMetricsInfo_flags:
  "loading_hidden (displayMetricsInfo info v) = loading_hidden v"
  "results_hidden (displayMetricsInfo info v) = results_hidden v"
  "error_hidden (displayMetricsInfo info v) = error_hidden v"
  "\<not> modal_hidden (displayMetricsInfo info v)"
  by (simp_all add: displayMetricsInfo_def)

lemma fire_preserves_inv:
  assumes "settled_inv p" "permitted ev p" "fire eng ev p = Some p'"
  shows "settled_inv p'"
proof (cases ev)
  case RunEvaluationClick
  with assms show ?thesis
    by (auto simp: settled_inv_def fire_def runEvaluation_begin_flags split: if_splits)
next
  case (EvaluateSettled response)
  with assms runEvaluation_settle_flags [of eng response "view p"] show ?thesis
    by (auto simp: settled_inv_def fire_def at_most_one_visible_iff split: if_splits)
next
  case ShowMetricsInfoClick
  with assms show ?thesis
    by (auto simp: settled_inv_def fire_def at_most_one_visible_iff split: if_splits)
next
  case (MetricsInfoSettled response)
  with assms obtain info where "response = Resolved info"
    by (cases response) auto
  with MetricsInfoSettled assms show ?thesis
    by (auto simp: settled_inv_def fire_def at_most_one_visible_iff
        showMetricsInfo_settle_def displayMetricsInfo_flags split: if_splits)
next
  case CloseClick
  with assms show ?thesis
    by (auto simp: settled_inv_def fire_def at_most_one_visible_iff split: if_splits)
next
  case (WindowClick on_modal)
  with assms show ?thesis
    by (auto simp: settled_inv_def fire_def at_most_one_visible_iff split: if_splits)
qed

lemma settled_inv_visible: "settled_inv p \<Longrightarrow> at_most_one_visible (view p)"
  by (auto simp: settled_inv_def at_most_one_visible_iff split: if_splits)

lemma disciplined_preserves_inv:
  "settled_inv p \<Longrightarrow> disciplined eng evs p \<Longrightarrow> fire_all eng evs p = Some p'
     \<Longrightarrow> settled_inv p'"
proof (induction evs arbitrary: p)
  case Nil
  then show ?case by simp
next
  case (Cons ev evs)
  then obtain q where q: "fire eng ev p = Some q"
    by (cases "fire eng ev p") auto
  with Cons.prems have "permitted ev p" "disciplined eng evs q" "fire_all eng evs q = Some p'"
    by auto
  with Cons.IH fire_preserves_inv [OF Cons.prems(1) _ q] show ?case by blast
qed

lemma page_load_inv: "settled_inv page_load"
  by (simp add: settled_inv_def page_load_def at_most_one_visible_iff)

lemma scenario_A_renders:
  "snd (displayResults eng (metrics scenario_A) (plots scenario_A) (operator scenario_A) v)
     = None"
  by (simp add: displayResults_def displayMacroMetrics_def macro_metric_defs_def
      scenario_A_def ascii_def split: prod.splits)

lemma runEvaluation_try_scenario_B:
  "runEvaluation_try eng (Resolved scenario_B) v = showError (ascii ''qrels not found'') v"
  by (simp add: runEvaluation_try_def scenario_B_def)

lemma runEvaluation_try_scenario_A:
  "\<not> results_hidden (runEvaluation_try eng (Resolved scenario_A) v)
   \<and> loading_hidden (runEvaluation_try eng (Resolved scenario_A) v) = loading_hidden v
   \<and> error_hidden (runEvaluation_try eng (Resolved scenario_A) v) = error_hidden v"
proof -
  obtain v' r where dr:
    "displayResults eng (metrics scenario_A) (plots scenario_A) (operator scenario_A) v
       = (v', r)"
    by (cases "displayResults eng (metrics scenario_A) (plots scenario_A)
                 (operator scenario_A) v")
  with scenario_A_renders [of eng v] have r: "r = None" by simp
  have s: "success scenario_A" by (simp add: scenario_A_def)
  from displayResults_flags [OF dr] r dr s show ?thesis
    by (simp add: runEvaluation_try_def)
qed

text \<open>
  \<^bold>\<open>C5.\<close> As stated (in every reachable state at most one of the loading indicator,
  the results panel and the error banner is visible, also after a failed
  \<open>showMetricsInfo\<close>) the property fails. After a successful evaluation a failed
  documentation request shows the banner beside the results; of two overlapping
  evaluations the first can show the results and the second then the banner; and inside
  the continuation of a successful evaluation \<open>showResults\<close> runs before \<open>hideLoading\<close>,
  so just after the \<open>try\<close> block the results and the loading indicator are both visible.
  In each of the three states two panels are visible.
\<close>

theorem panels_not_exclusive:
  "map_option (at_most_one_visible \<circ> view)
     (fire_all sample_engine results_then_info_failure page_load) = Some False
   \<and> map_option (visible_panels \<circ> view)
     (fire_all sample_engine results_then_info_failure page_load) = Some 2
   \<and> map_option (at_most_one_visible \<circ> view)
     (fire_all sample_engine overlapping_runs page_load) = Some False
   \<and> map_option (visible_panels \<circ> view)
     (fire_all sample_engine overlapping_runs page_load) = Some 2
   \<and> visible_panels
       (runEvaluation_try sample_engine (Resolved scenario_A)
          (runEvaluation_begin (view page_load))) = 2"
  using runEvaluation_try_scenario_A [of sample_engine]
  by (simp add: results_then_info_failure_def overlapping_runs_def fire_def
      at_most_one_visible_def visible_panels_def showMetricsInfo_settle_def showError_def
      runEvaluation_try_scenario_B runEvaluation_settle_def hideLoading_def
      runEvaluation_begin_flags)

text \<open>
  \<^bold>\<open>C5, amended.\<close> Between events, at most one of the three panels is visible in every
  state the page reaches from page load by a sequence of events in which no evaluation is
  started while another is in flight and no \<open>showMetricsInfo\<close> request is rejected. A
  rejected \<open>showMetricsInfo\<close> request shows the error banner and leaves the loading
  indicator and the results panel as they are.
\<close>

theorem one_panel_when_disciplined:
  "(disciplined eng evs page_load \<and> fire_all eng evs page_load = Some p
      \<longrightarrow> at_most_one_visible (view p))
   \<and> \<not> error_hidden (showMetricsInfo_settle (Rejected e) v)
   \<and> loading_hidden (showMetricsInfo_settle (Rejected e) v) = loading_hidden v
   \<and> results_hidden (showMetricsInfo_settle (Rejected e) v) = results_hidden v"
  using disciplined_preserves_inv [OF page_load_inv, of eng evs p] settled_inv_visible [of p]
  by (auto simp: showMetricsInfo_settle_def showError_def)

theorem one_panel_when_disciplined_witness:
  "disciplined sample_engine disciplined_session page_load
   \<and> fire_all sample_engine disciplined_session page_load \<noteq> None
   \<and> at_most_one_visible
       (view (the (fire_all sample_engine disciplined_session page_load)))"
proof -
  have d: "disciplined sample_engine disciplined_session page_load"
    by (simp add: disciplined_session_def fire_def page_load_def)
  have f: "fire_all sample_engine disciplined_session page_load \<noteq> None"
    by (simp add: disciplined_session_def fire_def page_load_def)
  then obtain p where p: "fire_all sample_engine disciplined_session page_load = Some p"
    by auto
  with d one_panel_when_disciplined [of sample_engine disciplined_session p]
  show ?thesis by simp
qed

subsection \<open>Three decimal places\<close>

lemma decimal_digit: "n < 10 \<Longrightarrow> decimal n = [48 + n]"
  by (simp add: decimal.simps)

lemma decimal_step: "10 \<le> n \<Longrightarrow> decimal n = decimal (n div 10) @ [48 + n mod 10]"
  by (subst decimal.simps) simp

lemma replicate_small: "replicate 3 x = [x, x, x]" "replicate 2 x = [x, x]"
  by (simp_all add: numeral_3_eq_3 numeral_2_eq_2)

text \<open>A number below ten thousand, padded with zeros to four digits.\<close>

lemma decimal_padded4:
  assumes "n < 10000"
  shows "replicate (4 - length (decimal n)) 48 @ decimal n
           = [48 + n div 1000, 48 + n div 100 mod 10, 48 + n div 10 mod 10, 48 + n mod 10]"
proof -
  consider "n < 10" | "10 \<le> n" "n < 100" | "100 \<le> n" "n < 1000" | "1000 \<le> n"
    by linarith
  then show ?thesis
  proof cases
    case 1
    then show ?thesis by (simp add: decimal_digit replicate_small)
  next
    case 2
    then have "n div 10 < 10" by simp
    with 2 show ?thesis
      by (simp add: decimal_step [of n] decimal_digit replicate_small)
  next
    case 3
    then have a: "10 \<le> n div 10" "n div 10 div 10 < 10" by simp_all
    with 3 show ?thesis
      by (simp add: decimal_step [of n] decimal_step [of "n div 10"] decimal_digit
          div_mult2_eq [symmetric])
  next
    case 4
    with assms have a: "10 \<le> n" "10 \<le> n div 10" "10 \<le> n div 100" "n div 1000 < 10"
      by simp_all
    have e: "n div 10 div 10 = n div 100" "n div 100 div 10 = n div 1000"
      by (simp_all add: div_mult2_eq [symmetric])
    have d1: "decimal n = decimal (n div 10) @ [48 + n mod 10]"
      using a(1) by (rule decimal_step)
    have d2: "decimal (n div 10) = decimal (n div 100) @ [48 + n div 10 mod 10]"
      using decimal_step [OF a(2)] by (simp only: e)
    have d3: "decimal (n div 100) = decimal (n div 1000) @ [48 + n div 100 mod 10]"
      using decimal_step [OF a(3)] by (simp only: e)
    have d4: "decimal (n div 1000) = [48 + n div 1000]"
      using a(4) by (rule decimal_digit)
    show ?thesis by (simp add: d1 d2 d3 d4)
  qed
qed

lemma decimal_nonempty: "decimal n \<noteq> []"
  by (subst decimal.simps) simp

lemma decimal_thousands:
  assumes "1000 \<le> n"
  shows "decimal n = decimal (n div 1000)
           @ [48 + n div 100 mod 10, 48 + n div 10 mod 10, 48 + n mod 10]"
proof -
  from assms have a: "10 \<le> n" "10 \<le> n div 10" "10 \<le> n div 100" by simp_all
  have e: "n div 10 div 10 = n div 100" "n div 100 div 10 = n div 1000"
    by (simp_all add: div_mult2_eq [symmetric])
  have d1: "decimal n = decimal (n div 10) @ [48 + n mod 10]"
    using a(1) by (rule decimal_step)
  have d2: "decimal (n div 10) = decimal (n div 100) @ [48 + n div 10 mod 10]"
    using decimal_step [OF a(2)] by (simp only: e)
  have d3: "decimal (n div 100) = decimal (n div 1000) @ [48 + n div 100 mod 10]"
    using decimal_step [OF a(3)] by (simp only: e)
  show ?thesis by (simp add: d1 d2 d3)
qed

lemma fixed3_split:
  fixes n :: nat
  defines "mz \<equiv> replicate (3 + 1 - length (decimal n)) 48 @ decimal n"
  shows "take (length mz - 3) mz = decimal (n div 1000)
         \<and> drop (length mz - 3) mz
             = [48 + n div 100 mod 10, 48 + n div 10 mod 10, 48 + n mod 10]"
proof (cases "n < 1000")
  case True
  then have "mz = [48 + n div 1000, 48 + n div 100 mod 10, 48 + n div 10 mod 10, 48 + n mod 10]"
    unfolding mz_def using decimal_padded4 [of n] by simp
  moreover from True have "decimal (n div 1000) = [48 + n div 1000]"
    by (simp add: decimal_digit)
  ultimately show ?thesis by simp
next
  case False
  then have t: "decimal n = decimal (n div 1000)
           @ [48 + n div 100 mod 10, 48 + n div 10 mod 10, 48 + n mod 10]"
    by (intro decimal_thousands) simp
  have "length (decimal (n div 1000)) \<ge> 1"
    using decimal_nonempty [of "n div 1000"] by (cases "decimal (n div 1000)") simp_all
  with t have "3 + 1 - length (decimal n) = 0" by simp
  then have "mz = decimal n" unfolding mz_def by simp
  with t show ?thesis by simp
qed

lemma thousandths_bound:
  assumes "0 \<le> v" "v \<le> (1::real)"
  shows "nat \<lfloor>v * 1000 + 1 / 2\<rfloor> \<le> 1000"
proof -
  have "v * 1000 + 1 / 2 < 1001" using assms by simp
  then have "\<lfloor>v * 1000 + 1 / 2\<rfloor> < 1001" by (simp add: floor_less_iff)
  then show ?thesis by (simp add: nat_le_iff)
qed

lemma toFixed3_unit:
  assumes "0 \<le> v" "v \<le> 1"
  shows "toFixed eng 3 v
           = [48 + nat \<lfloor>v * 1000 + 1 / 2\<rfloor> div 1000] @ ascii ''.''
             @ [48 + nat \<lfloor>v * 1000 + 1 / 2\<rfloor> div 100 mod 10,
                48 + nat \<lfloor>v * 1000 + 1 / 2\<rfloor> div 10 mod 10,
                48 + nat \<lfloor>v * 1000 + 1 / 2\<rfloor> mod 10]"
proof -
  let ?n = "nat \<lfloor>v * 1000 + 1 / 2\<rfloor>"
  have n: "?n < 10000" using thousandths_bound [OF assms] by simp
  have small: "\<not> 10 ^ 21 \<le> \<bar>v\<bar>"
  proof -
    have "\<bar>v\<bar> \<le> 1" using assms by simp
    also have "(1::real) < 10 ^ 21" by simp
    finally show ?thesis by simp
  qed
  have neg: "\<not> v < 0" using assms by simp
  have abs: "\<bar>v\<bar> = v" using assms by simp
  have pad: "replicate (3 + 1 - length (decimal ?n)) 48 @ decimal ?n
           = [48 + ?n div 1000, 48 + ?n div 100 mod 10, 48 + ?n div 10 mod 10,
              48 + ?n mod 10]"
    using decimal_padded4 [OF n] by simp
  have eq: "toFixed eng 3 v =
      (let m = decimal ?n; mz = replicate (3 + 1 - length m) 48 @ m; k = length mz
       in take (k - 3) mz @ ascii ''.'' @ drop (k - 3) mz)"
    using neg small abs by (simp add: toFixed_def Let_def)
  show ?thesis
    by (simp only: eq Let_def pad) simp
qed

text \<open>
  \<open>toFixed(3)\<close> of any number of magnitude below \<open>10^21\<close>: the sign, the digits of the
  whole part, a point, and three digits.
\<close>

lemma toFixed3_digits:
  assumes "\<bar>v\<bar> < 10 ^ 21"
  shows "toFixed eng 3 v
           = (if v < 0 then ascii ''-'' else [])
             @ decimal (nat \<lfloor>\<bar>v\<bar> * 1000 + 1 / 2\<rfloor> div 1000) @ ascii ''.''
             @ [48 + nat \<lfloor>\<bar>v\<bar> * 1000 + 1 / 2\<rfloor> div 100 mod 10,
                48 + nat \<lfloor>\<bar>v\<bar> * 1000 + 1 / 2\<rfloor> div 10 mod 10,
                48 + nat \<lfloor>\<bar>v\<bar> * 1000 + 1 / 2\<rfloor> mod 10]"
proof -
  let ?n = "nat \<lfloor>\<bar>v\<bar> * 1000 + 1 / 2\<rfloor>"
  have small: "\<not> 10 ^ 21 \<le> \<bar>v\<bar>" using assms by simp
  have eq: "toFixed eng 3 v =
      (let s = (if v < 0 then ascii ''-'' else []);
           m = decimal ?n; mz = replicate (3 + 1 - length m) 48 @ m; k = length mz
       in s @ take (k - 3) mz @ ascii ''.'' @ drop (k - 3) mz)"
    using small by (simp add: toFixed_def Let_def)
  show ?thesis
    by (simp only: eq Let_def fixed3_split)
qed

lemma nearest_thousandth:
  "\<bar>real (nat \<lfloor>\<bar>v\<bar> * 1000 + 1 / 2\<rfloor>) / 1000 - \<bar>v\<bar>\<bar> \<le> 1 / 2000"
proof -
  let ?z = "\<lfloor>\<bar>v\<bar> * 1000 + 1 / 2\<rfloor>"
  have "0 \<le> ?z" by simp
  then have r: "real (nat ?z) = of_int ?z" by simp
  have "of_int ?z \<le> \<bar>v\<bar> * 1000 + 1 / 2" "\<bar>v\<bar> * 1000 + 1 / 2 < of_int ?z + 1"
    by linarith+
  then show ?thesis unfolding r by linarith
qed

subsection \<open>The macro cards\<close>

lemma forEach_metric_cong:
  "map_of m' = map_of m \<Longrightarrow>
     forEach_metric eng m' opr ds c = forEach_metric eng m opr ds c"
  by (induction ds arbitrary: c) (simp_all split: option.splits)

lemma displayMacroMetrics_present:
  assumes "map_of m (ascii ''precision'') = Some p" "map_of m (ascii ''recall'') = Some r"
    "map_of m (ascii ''f_measure'') = Some f" "map_of m (ascii ''accuracy'') = Some a"
  shows "displayMacroMetrics eng m opr
           = (map (\<lambda>(d, v). metricCard eng d v opr) (zip macro_metric_defs [p, r, f, a]),
              None)"
  using assms by (simp add: displayMacroMetrics_def macro_metric_defs_def)

lemma displayMacroMetrics_order_free:
  assumes "distinct (map fst m)" "distinct (map fst m')" "set m' = set m"
  shows "displayMacroMetrics eng m' opr = displayMacroMetrics eng m opr"
proof -
  from assms have "map_of m' = map_of m" by (simp add: map_of_inject_set)
  then show ?thesis unfolding displayMacroMetrics_def by (rule forEach_metric_cong)
qed

text \<open>
  \<^bold>\<open>C8.\<close> For every macro metric set (an object holding the four metrics) the macro
  section is exactly four cards, for \<open>precision\<close>, \<open>recall\<close>, \<open>f_measure\<close> and
  \<open>accuracy\<close> in this order, and no exception. The cards depend on the object only through
  the value stored under each key, so two objects with the same entries in a different
  iteration order give the same cards. Each card's markup holds the value's tier class, the
  value as \<open>toFixed(3)\<close> writes it, and the operator label followed by the operator. For a
  value in \<open>[0, 1]\<close> that text is one digit (0 or 1), a point and exactly three digits; for
  any value of magnitude below \<open>10^21\<close> it is the sign, the whole part, a point and exactly
  three digits, and the digits are those of the nearest number of thousandths.
\<close>

theorem macro_cards_fixed_order:
  \<open>(map_of m (ascii ''precision'') = Some p \<and> map_of m (ascii ''recall'') = Some r
      \<and> map_of m (ascii ''f_measure'') = Some f \<and> map_of m (ascii ''accuracy'') = Some a
     \<longrightarrow> displayMacroMetrics eng m opr
           = (map (\<lambda>(d, v). metricCard eng d v opr) (zip macro_metric_defs [p, r, f, a]),
              None)
         \<and> length (fst (displayMacroMetrics eng m opr)) = 4)
   \<and> map key macro_metric_defs
       = [ascii ''precision'', ascii ''recall'', ascii ''f_measure'', ascii ''accuracy'']
   \<and> (distinct (map fst m) \<and> distinct (map fst m') \<and> set m' = set m
       \<longrightarrow> displayMacroMetrics eng m' opr = displayMacroMetrics eng m opr)
   \<and> innerHTML (metricCard eng d v opr)
       = indent 16 @ ascii ''<div class="metric-name">'' @ description d @ ascii ''</div>''
         @ indent 16 @ ascii ''<div class="metric-value '' @ getValueClass v @ ascii ''">''
           @ toFixed eng 3 v @ ascii ''</div>''
         @ indent 16 @ ascii ''<div class="metric-desc">'' @ name d @ ascii ''</div>''
         @ indent 16 @ ascii ''<div class="operator-info">'' @ operator_label @ opr
           @ ascii ''</div>''
         @ indent 12
   \<and> (0 \<le> v \<and> v \<le> 1
       \<longrightarrow> toFixed eng 3 v
             = [48 + nat \<lfloor>v * 1000 + 1 / 2\<rfloor> div 1000] @ ascii ''.''
               @ [48 + nat \<lfloor>v * 1000 + 1 / 2\<rfloor> div 100 mod 10,
                  48 + nat \<lfloor>v * 1000 + 1 / 2\<rfloor> div 10 mod 10,
                  48 + nat \<lfloor>v * 1000 + 1 / 2\<rfloor> mod 10]
           \<and> nat \<lfloor>v * 1000 + 1 / 2\<rfloor> div 1000 \<le> 1)
   \<and> (\<bar>x\<bar> < 10 ^ 21
       \<longrightarrow> toFixed eng 3 x
             = (if x < 0 then ascii ''-'' else [])
               @ decimal (nat \<lfloor>\<bar>x\<bar> * 1000 + 1 / 2\<rfloor> div 1000) @ ascii ''.''
               @ [48 + nat \<lfloor>\<bar>x\<bar> * 1000 + 1 / 2\<rfloor> div 100 mod 10,
                  48 + nat \<lfloor>\<bar>x\<bar> * 1000 + 1 / 2\<rfloor> div 10 mod 10,
                  48 + nat \<lfloor>\<bar>x\<bar> * 1000 + 1 / 2\<rfloor> mod 10]
           \<and> \<bar>real (nat \<lfloor>\<bar>x\<bar> * 1000 + 1 / 2\<rfloor>) / 1000 - \<bar>x\<bar>\<bar> \<le> 1 / 2000)\<close>
proof (intro conjI impI)
  assume h: "map_of m (ascii ''precision'') = Some p \<and> map_of m (ascii ''recall'') = Some r
      \<and> map_of m (ascii ''f_measure'') = Some f \<and> map_of m (ascii ''accuracy'') = Some a"
  then show eq: "displayMacroMetrics eng m opr
         = (map (\<lambda>(d, v). metricCard eng d v opr) (zip macro_metric_defs [p, r, f, a]),
            None)"
    by (intro displayMacroMetrics_present) simp_all
  show "length (fst (displayMacroMetrics eng m opr)) = 4"
    unfolding eq by (simp add: macro_metric_defs_def)
next
  show "map key macro_metric_defs
       = [ascii ''precision'', ascii ''recall'', ascii ''f_measure'', ascii ''accuracy'']"
    by (simp add: macro_metric_defs_def)
next
  assume "distinct (map fst m) \<and> distinct (map fst m') \<and> set m' = set m"
  then show "displayMacroMetrics eng m' opr = displayMacroMetrics eng m opr"
    by (intro displayMacroMetrics_order_free) simp_all
next
  show \<open>innerHTML (metricCard eng d v opr)
       = indent 16 @ ascii ''<div class="metric-name">'' @ description d @ ascii ''</div>''
         @ indent 16 @ ascii ''<div class="metric-value '' @ getValueClass v @ ascii ''">''
           @ toFixed eng 3 v @ ascii ''</div>''
         @ indent 16 @ ascii ''<div class="metric-desc">'' @ name d @ ascii ''</div>''
         @ indent 16 @ ascii ''<div class="operator-info">'' @ operator_label @ opr
           @ ascii ''</div>''
         @ indent 12\<close>
    by (simp add: metricCard_def)
next
  assume "0 \<le> v \<and> v \<le> 1"
  then show "toFixed eng 3 v
             = [48 + nat \<lfloor>v * 1000 + 1 / 2\<rfloor> div 1000] @ ascii ''.''
               @ [48 + nat \<lfloor>v * 1000 + 1 / 2\<rfloor> div 100 mod 10,
                  48 + nat \<lfloor>v * 1000 + 1 / 2\<rfloor> div 10 mod 10,
                  48 + nat \<lfloor>v * 1000 + 1 / 2\<rfloor> mod 10]"
    by (intro toFixed3_unit) simp_all
next
  assume "0 \<le> v \<and> v \<le> 1"
  then have "nat \<lfloor>v * 1000 + 1 / 2\<rfloor> \<le> 1000"
    by (intro thousandths_bound) simp_all
  then show "nat \<lfloor>v * 1000 + 1 / 2\<rfloor> div 1000 \<le> 1" by simp
next
  assume "\<bar>x\<bar> < 10 ^ 21"
  then show "toFixed eng 3 x
             = (if x < 0 then ascii ''-'' else [])
               @ decimal (nat \<lfloor>\<bar>x\<bar> * 1000 + 1 / 2\<rfloor> div 1000) @ ascii ''.''
               @ [48 + nat \<lfloor>\<bar>x\<bar> * 1000 + 1 / 2\<rfloor> div 100 mod 10,
                  48 + nat \<lfloor>\<bar>x\<bar> * 1000 + 1 / 2\<rfloor> div 10 mod 10,
                  48 + nat \<lfloor>\<bar>x\<bar> * 1000 + 1 / 2\<rfloor> mod 10]"
    by (rule toFixed3_digits)
next
  show "\<bar>real (nat \<lfloor>\<bar>x\<bar> * 1000 + 1 / 2\<rfloor>) / 1000 - \<bar>x\<bar>\<bar> \<le> 1 / 2000"
    by (rule nearest_thousandth)
qed

theorem macro_cards_fixed_order_witness:
  "map_of (macro (metrics scenario_A)) (ascii ''precision'') = Some 0.82
   \<and> map_of (macro (metrics scenario_A)) (ascii ''recall'') = Some 0.65
   \<and> map_of (macro (metrics scenario_A)) (ascii ''f_measure'') = Some 0.725
   \<and> map_of (macro (metrics scenario_A)) (ascii ''accuracy'') = Some 0.9
   \<and> displayMacroMetrics sample_engine (macro (metrics scenario_A)) (ascii ''AND'')
       = (map (\<lambda>(d, v). metricCard sample_engine d v (ascii ''AND''))
            (zip macro_metric_defs [0.82, 0.65, 0.725, 0.9]), None)
   \<and> distinct (map fst (macro (metrics scenario_A)))
   \<and> displayMacroMetrics sample_engine (rev (macro (metrics scenario_A))) (ascii ''AND'')
       = displayMacroMetrics sample_engine (macro (metrics scenario_A)) (ascii ''AND'')
   \<and> toFixed sample_engine 3 0.82 = ascii ''0.820''
   \<and> toFixed sample_engine 3 0.65 = ascii ''0.650''
   \<and> toFixed sample_engine 3 0.725 = ascii ''0.725''
   \<and> toFixed sample_engine 3 0.9 = ascii ''0.900''
   \<and> \<bar>- 12.3456 :: real\<bar> < 10 ^ 21
   \<and> toFixed sample_engine 3 (- 12.3456) = ascii ''-12.346''
   \<and> map getValueClass [0.82, 0.65, 0.725, 0.9]
       = [ascii ''high'', ascii ''medium'', ascii ''high'', ascii ''high'']"
proof -
  have k: "map_of (macro (metrics scenario_A)) (ascii ''precision'') = Some 0.82"
    "map_of (macro (metrics scenario_A)) (ascii ''recall'') = Some 0.65"
    "map_of (macro (metrics scenario_A)) (ascii ''f_measure'') = Some 0.725"
    "map_of (macro (metrics scenario_A)) (ascii ''accuracy'') = Some 0.9"
    by (simp_all add: scenario_A_def ascii_def)
  have d: "distinct (map fst (macro (metrics scenario_A)))"
    by (simp add: scenario_A_def ascii_def)
  have t: "map getValueClass [0.82, 0.65, 0.725, 0.9]
       = [ascii ''high'', ascii ''medium'', ascii ''high'', ascii ''high'']"
    by (simp add: getValueClass_def)
  have f: "toFixed sample_engine 3 0.82 = ascii ''0.820''"
    "toFixed sample_engine 3 0.65 = ascii ''0.650''"
    "toFixed sample_engine 3 0.725 = ascii ''0.725''"
    "toFixed sample_engine 3 0.9 = ascii ''0.900''"
    using macro_cards_fixed_order [where eng = sample_engine and v = "0.82"]
      macro_cards_fixed_order [where eng = sample_engine and v = "0.65"]
      macro_cards_fixed_order [where eng = sample_engine and v = "0.725"]
      macro_cards_fixed_order [where eng = sample_engine and v = "0.9"]
    by (simp_all add: ascii_def)
  have d': "distinct (map fst (rev (macro (metrics scenario_A))))"
    by (simp add: scenario_A_def ascii_def)
  note inst = macro_cards_fixed_order [where m = "macro (metrics scenario_A)" and p = "0.82"
      and r = "0.65" and f = "0.725" and a = "0.9" and eng = sample_engine
      and opr = "ascii ''AND''" and m' = "rev (macro (metrics scenario_A))"
      and v = "0.82" and d = "hd macro_metric_defs"]
  have c1: "displayMacroMetrics sample_engine (macro (metrics scenario_A)) (ascii ''AND'')
       = (map (\<lambda>(d, v). metricCard sample_engine d v (ascii ''AND''))
            (zip macro_metric_defs [0.82, 0.65, 0.725, 0.9]), None)"
    using inst k by blast
  have c2: "displayMacroMetrics sample_engine (rev (macro (metrics scenario_A)))
              (ascii ''AND'')
       = displayMacroMetrics sample_engine (macro (metrics scenario_A)) (ascii ''AND'')"
    using inst d d' set_rev [of "macro (metrics scenario_A)"] by blast
  have b: "\<bar>- 12.3456 :: real\<bar> < 10 ^ 21" by simp
  have g: "toFixed sample_engine 3 (- 12.3456) = ascii ''-12.346''"
    using macro_cards_fixed_order [where eng = sample_engine and x = "- 12.3456"] b
    by (simp add: ascii_def decimal.simps)
  show ?thesis
    by (intro conjI) (rule k d c1 c2 f t b g)+
qed


subsection \<open>The table read back\<close>
































end
